theory Spec2Isabelle
  imports Main "HOL-Library.Word"
begin

section \<open>The catalog service command tool (openmanage-service-cli/main.go)\<close>

text \<open>
  The tool parses its flags into package-level variables, checks them, builds one
  management client and runs exactly one handler. Every handler prints to standard
  output, calls the management service through the client, and either returns (the
  process then ends with status 0) or calls \<^verbatim>\<open>os.Exit(-1)\<close>.

  The model makes these effects explicit. A run is a list of events, in the order in
  which they happen, together with the exit status of the process. The management
  service, the EC2 metadata lookup and the TLS loader are outside the program: their
  answers are the fields of a record \<open>world\<close> that every handler receives.
\<close>

subsection \<open>Data\<close>

type_synonym int64 = "64 word"

text \<open>A Go \<^verbatim>\<open>error\<close> value is modelled by its text.\<close>

type_synonym error = string

text \<open>The flag variables of lines 24-51, as they stand after \<^verbatim>\<open>flag.Parse()\<close>.\<close>

record flags =
  op :: string
  serviceType :: string
  cluster :: string
  serverURL :: string
  region :: string
  service :: string
  replicas :: int64
  volSizeGB :: int64
  cpuUnits :: int64
  reserveMemMB :: int64
  admin :: string
  adminPasswd :: string
  tlsEnabled :: bool
  caFile :: string
  certFile :: string
  keyFile :: string
  replUser :: string
  replUserPasswd :: string
  serviceUUID :: string
  fileID :: string

definition defaultPGAdmin :: string where "defaultPGAdmin = ''postgres''"

definition opCreate :: string where "opCreate = ''create-service''"
definition opCheckInit :: string where "opCheckInit = ''check-service-init''"
definition opDelete :: string where "opDelete = ''delete-service''"
definition opList :: string where "opList = ''list-services''"
definition opGet :: string where "opGet = ''get-service''"
definition opListMembers :: string where "opListMembers = ''list-members''"
definition opGetConfig :: string where "opGetConfig = ''get-config''"

text \<open>
  The two service types of package \<^verbatim>\<open>catalog\<close>, with the values that the help text of
  the \<^verbatim>\<open>service-type\<close> flag gives (line 26).
\<close>

definition CatalogService_MongoDB :: string where "CatalogService_MongoDB = ''mongodb''"
definition CatalogService_PostgreSQL :: string where "CatalogService_PostgreSQL = ''postgresql''"

text \<open>
  The constants of package \<^verbatim>\<open>common\<close> that bound the wait for initialization. Their
  declarations are not part of the sources at hand, so they are parameters of the model.
\<close>

record common =
  DefaultServiceWaitSeconds :: int
  DefaultRetryWaitSeconds :: int

text \<open>
  The request structures of package \<^verbatim>\<open>manage\<close> and \<^verbatim>\<open>common\<close>, with the fields that
  the struct literals of main.go fill in.
\<close>

record ServiceCommonRequest =
  Region :: string
  Cluster :: string
  ServiceName :: string

record Resources =
  MaxCPUUnits :: int64
  ReserveCPUUnits :: int64
  MaxMemMB :: int64
  ReserveMemMB :: int64

record CatalogCreateMongoDBRequest =
  Service :: ServiceCommonRequest
  Resource :: Resources
  Replicas :: int64
  VolumeSizeGB :: int64
  Admin :: string
  AdminPasswd :: string

record CatalogCreatePostgreSQLRequest =
  Service :: ServiceCommonRequest
  Resource :: Resources
  Replicas :: int64
  VolumeSizeGB :: int64
  Admin :: string
  AdminPasswd :: string
  ReplUser :: string
  ReplUserPasswd :: string

record CatalogCheckServiceInitRequest =
  ServiceType :: string
  Service :: ServiceCommonRequest
  Admin :: string
  AdminPasswd :: string

record ListServiceRequest =
  Region :: string
  Cluster :: string
  Prefix :: string

record ListServiceMemberRequest =
  Service :: ServiceCommonRequest

record GetConfigFileRequest =
  Region :: string
  Cluster :: string
  ServiceUUID :: string
  FileID :: string

text \<open>
  What the management service returns. Of a service member the tool reads the volume
  and the configs; service attributes and config files are only printed.
\<close>

type_synonym ServiceAttr = string
type_synonym ConfigFile = string
type_synonym MemberConfig = string

record ServiceMember =
  VolumeID :: string
  Configs :: "MemberConfig list"

subsection \<open>Events\<close>

text \<open>One constructor for each print statement of main.go, with the values it prints.\<close>

datatype msg =
    PleaseSpecifyServiceName
  | TLSEnabledWithoutFiles
  | PleaseSpecifyRegion
  | GenClientTLSConfigError error
  | InvalidServiceType
  | InvalidOperation
  | PleaseSpecifyReplicasAndVolumeSize
  | CreateMongoDBServiceError error
  | CreatedWaitTillInitialized
  | CheckServiceInitError error
  | CatalogServiceInitialized
  | NotInitializedAfter int
  | CreatePostgreSQLServiceError error
  | PostgreSQLServiceCreated
  | ServiceInitialized
  | ServiceIsInitializing
  | ListServiceError error
  | ListOfServices "ServiceAttr list"
  | GetServiceAttrError error
  | ServiceAttributes ServiceAttr
  | ListServiceMemberError error
  | ListOfMembers "ServiceMember list"
  | DeleteServiceError error
  | ServiceDeletedDeleteVolumes "string list"
  | PleaseSpecifyUUIDAndFileID
  | GetConfigFileError error
  | ConfigFileContent ConfigFile

text \<open>One constructor for each method of the management client that main.go calls.\<close>

datatype call =
    CallCatalogCreateMongoDBService CatalogCreateMongoDBRequest
  | CallCatalogCreatePostgreSQLService CatalogCreatePostgreSQLRequest
  | CallCatalogCheckServiceInit CatalogCheckServiceInitRequest
  | CallListService ListServiceRequest
  | CallGetServiceAttr ServiceCommonRequest
  | CallListServiceMember ListServiceMemberRequest
  | CallDeleteService ServiceCommonRequest
  | CallGetConfigFile GetConfigFileRequest

datatype event =
    Print msg
  | Invoke call
  | Sleep nat
  | NewManageClient string bool

text \<open>
  The collaborators. \<open>CatalogCheckServiceInit\<close> takes the number of earlier calls of
  it in this run as well: the service initializes while the tool polls, so the answer
  to the same request changes from one call to the next. \<open>MapUnicodeToLower\<close> is
  the lowering of the standard library on a string with a byte outside ASCII,
  \<^verbatim>\<open>strings.Map(unicode.ToLower, s)\<close>: the Unicode tables are not part of the model.
\<close>

record world =
  GetLocalEc2Region :: "error + string"
  GenClientTLSConfig :: "string \<Rightarrow> string \<Rightarrow> string \<Rightarrow> error option"
  GetDefaultManageServiceURL :: "string \<Rightarrow> bool \<Rightarrow> string"
  FormatManageServiceURL :: "string \<Rightarrow> bool \<Rightarrow> string"
  CatalogCreateMongoDBService :: "CatalogCreateMongoDBRequest \<Rightarrow> error option"
  CatalogCreatePostgreSQLService :: "CatalogCreatePostgreSQLRequest \<Rightarrow> error option"
  CatalogCheckServiceInit :: "nat \<Rightarrow> CatalogCheckServiceInitRequest \<Rightarrow> error + bool"
  ListService :: "ListServiceRequest \<Rightarrow> error + ServiceAttr list"
  GetServiceAttr :: "ServiceCommonRequest \<Rightarrow> error + ServiceAttr"
  ListServiceMember :: "ListServiceMemberRequest \<Rightarrow> error + ServiceMember list"
  DeleteService :: "ServiceCommonRequest \<Rightarrow> error option"
  GetConfigFile :: "GetConfigFileRequest \<Rightarrow> error + ConfigFile"
  MapUnicodeToLower :: "string \<Rightarrow> string"

text \<open>A finished run: what happened, and the exit status.\<close>

type_synonym run = "event list \<times> int"

text \<open>\<^verbatim>\<open>os.Exit(-1)\<close> after the events \<open>es\<close>, and a handler that returns after them.\<close>

definition exit_minus_1 :: "event list \<Rightarrow> run" where
  "exit_minus_1 es = (es, - 1)"

definition returns :: "event list \<Rightarrow> run" where
  "returns es = (es, 0)"

text \<open>The events \<open>es\<close> happen first, then the run \<open>r\<close>.\<close>

definition after :: "event list \<Rightarrow> run \<Rightarrow> run" where
  "after es r = (es @ fst r, snd r)"

subsection \<open>The handlers\<close>

text \<open>The request literals of the handlers, over the flag values.\<close>

definition serviceCommonRequest :: "flags \<Rightarrow> ServiceCommonRequest" where
  "serviceCommonRequest f =
     \<lparr>ServiceCommonRequest.Region = region f,
      ServiceCommonRequest.Cluster = cluster f,
      ServiceName = service f\<rparr>"

definition resources :: "flags \<Rightarrow> Resources" where
  "resources f =
     \<lparr>MaxCPUUnits = cpuUnits f,
      ReserveCPUUnits = cpuUnits f,
      MaxMemMB = reserveMemMB f,
      ReserveMemMB = reserveMemMB f\<rparr>"

definition mongoDBRequest :: "flags \<Rightarrow> CatalogCreateMongoDBRequest" where
  "mongoDBRequest f =
     \<lparr>CatalogCreateMongoDBRequest.Service = serviceCommonRequest f,
      CatalogCreateMongoDBRequest.Resource = resources f,
      CatalogCreateMongoDBRequest.Replicas = replicas f,
      CatalogCreateMongoDBRequest.VolumeSizeGB = volSizeGB f,
      CatalogCreateMongoDBRequest.Admin = admin f,
      CatalogCreateMongoDBRequest.AdminPasswd = adminPasswd f\<rparr>"

definition postgreSQLRequest :: "flags \<Rightarrow> CatalogCreatePostgreSQLRequest" where
  "postgreSQLRequest f =
     \<lparr>CatalogCreatePostgreSQLRequest.Service = serviceCommonRequest f,
      CatalogCreatePostgreSQLRequest.Resource = resources f,
      CatalogCreatePostgreSQLRequest.Replicas = replicas f,
      CatalogCreatePostgreSQLRequest.VolumeSizeGB = volSizeGB f,
      CatalogCreatePostgreSQLRequest.Admin = defaultPGAdmin,
      CatalogCreatePostgreSQLRequest.AdminPasswd = adminPasswd f,
      ReplUser = replUser f,
      ReplUserPasswd = replUserPasswd f\<rparr>"

text \<open>The request of the wait loop of \<open>createMongoDBService\<close> (lines 211-216).\<close>

definition initReq :: "flags \<Rightarrow> CatalogCheckServiceInitRequest" where
  "initReq f =
     \<lparr>ServiceType = CatalogService_MongoDB,
      CatalogCheckServiceInitRequest.Service =
        CatalogCreateMongoDBRequest.Service (mongoDBRequest f),
      CatalogCheckServiceInitRequest.Admin = admin f,
      CatalogCheckServiceInitRequest.AdminPasswd = adminPasswd f\<rparr>"

text \<open>The request of \<open>checkServiceInit\<close> (lines 270-279).\<close>

definition checkInitRequest :: "flags \<Rightarrow> CatalogCheckServiceInitRequest" where
  "checkInitRequest f =
     \<lparr>ServiceType = serviceType f,
      CatalogCheckServiceInitRequest.Service = serviceCommonRequest f,
      CatalogCheckServiceInitRequest.Admin = admin f,
      CatalogCheckServiceInitRequest.AdminPasswd = adminPasswd f\<rparr>"

definition listServiceRequest :: "flags \<Rightarrow> ListServiceRequest" where
  "listServiceRequest f =
     \<lparr>ListServiceRequest.Region = region f,
      ListServiceRequest.Cluster = cluster f,
      Prefix = []\<rparr>"

definition listServiceMemberRequest :: "flags \<Rightarrow> ListServiceMemberRequest" where
  "listServiceMemberRequest f =
     \<lparr>ListServiceMemberRequest.Service = serviceCommonRequest f\<rparr>"

definition getConfigFileRequest :: "flags \<Rightarrow> GetConfigFileRequest" where
  "getConfigFileRequest f =
     \<lparr>GetConfigFileRequest.Region = region f,
      GetConfigFileRequest.Cluster = cluster f,
      ServiceUUID = serviceUUID f,
      FileID = fileID f\<rparr>"

text \<open>
  An \<^verbatim>\<open>int64\<close> addition: the sum of two values in range, wrapped around into the
  range from \<open>- 2 ^ 63\<close> to \<open>2 ^ 63 - 1\<close>.
\<close>

definition add_int64 :: "int \<Rightarrow> int \<Rightarrow> int" where
  "add_int64 a b = (a + b + 2 ^ 63) mod 2 ^ 64 - 2 ^ 63"

text \<open>
  The wait loop of \<open>createMongoDBService\<close> (lines 218-231), from its \<open>n\<close>-th pass on,
  with the loop variable \<open>sec\<close> and the events \<open>es\<close> of the run so far. A pass asks
  the management service; on an error it prints the error, on the answer true it
  prints and returns, and otherwise it sleeps for ten seconds and adds the retry
  constant to \<open>sec\<close>. When \<open>sec\<close> has reached the wait constant, the loop is left and
  the process exits with -1. The result is \<open>None\<close> when the loop runs forever.
\<close>

partial_function (option) waitLoop ::
  "common \<Rightarrow> world \<Rightarrow> CatalogCheckServiceInitRequest \<Rightarrow> nat \<Rightarrow> int \<Rightarrow> event list
     \<Rightarrow> run option"
where
  "waitLoop c w rq n sec es =
     (if sec < DefaultServiceWaitSeconds c then
        (case CatalogCheckServiceInit w n rq of
           Inl err \<Rightarrow>
             waitLoop c w rq (Suc n) (add_int64 sec (DefaultRetryWaitSeconds c))
               (es @ [Invoke (CallCatalogCheckServiceInit rq),
                      Print (CheckServiceInitError err), Sleep 10])
         | Inr initialized \<Rightarrow>
             if initialized then
               Some (returns (es @ [Invoke (CallCatalogCheckServiceInit rq),
                                    Print CatalogServiceInitialized]))
             else
               waitLoop c w rq (Suc n) (add_int64 sec (DefaultRetryWaitSeconds c))
                 (es @ [Invoke (CallCatalogCheckServiceInit rq), Sleep 10]))
      else
        Some (exit_minus_1
          (es @ [Print (NotInitializedAfter (DefaultServiceWaitSeconds c))])))"

definition createMongoDBService :: "common \<Rightarrow> world \<Rightarrow> flags \<Rightarrow> run option" where
  "createMongoDBService c w f =
     (if replicas f = 0 \<or> volSizeGB f = 0 then
        Some (exit_minus_1 [Print PleaseSpecifyReplicasAndVolumeSize])
      else
        (case CatalogCreateMongoDBService w (mongoDBRequest f) of
           Some err \<Rightarrow>
             Some (exit_minus_1
               [Invoke (CallCatalogCreateMongoDBService (mongoDBRequest f)),
                Print (CreateMongoDBServiceError err)])
         | None \<Rightarrow>
             waitLoop c w (initReq f) 0 0
               [Invoke (CallCatalogCreateMongoDBService (mongoDBRequest f)),
                Print CreatedWaitTillInitialized]))"

definition createPostgreSQLService :: "world \<Rightarrow> flags \<Rightarrow> run" where
  "createPostgreSQLService w f =
     (if replicas f = 0 \<or> volSizeGB f = 0 then
        exit_minus_1 [Print PleaseSpecifyReplicasAndVolumeSize]
      else
        (case CatalogCreatePostgreSQLService w (postgreSQLRequest f) of
           Some err \<Rightarrow>
             exit_minus_1
               [Invoke (CallCatalogCreatePostgreSQLService (postgreSQLRequest f)),
                Print (CreatePostgreSQLServiceError err)]
         | None \<Rightarrow>
             returns
               [Invoke (CallCatalogCreatePostgreSQLService (postgreSQLRequest f)),
                Print PostgreSQLServiceCreated]))"

definition checkServiceInit :: "world \<Rightarrow> flags \<Rightarrow> run" where
  "checkServiceInit w f =
     (case CatalogCheckServiceInit w 0 (checkInitRequest f) of
        Inl err \<Rightarrow>
          returns [Invoke (CallCatalogCheckServiceInit (checkInitRequest f)),
                   Print (CheckServiceInitError err)]
      | Inr initialized \<Rightarrow>
          if initialized then
            returns [Invoke (CallCatalogCheckServiceInit (checkInitRequest f)),
                     Print ServiceInitialized]
          else
            returns [Invoke (CallCatalogCheckServiceInit (checkInitRequest f)),
                     Print ServiceIsInitializing])"

definition listServices :: "world \<Rightarrow> flags \<Rightarrow> run" where
  "listServices w f =
     (case ListService w (listServiceRequest f) of
        Inl err \<Rightarrow>
          exit_minus_1 [Invoke (CallListService (listServiceRequest f)),
                        Print (ListServiceError err)]
      | Inr services \<Rightarrow>
          returns [Invoke (CallListService (listServiceRequest f)),
                   Print (ListOfServices services)])"

definition getService :: "world \<Rightarrow> flags \<Rightarrow> run" where
  "getService w f =
     (case GetServiceAttr w (serviceCommonRequest f) of
        Inl err \<Rightarrow>
          exit_minus_1 [Invoke (CallGetServiceAttr (serviceCommonRequest f)),
                        Print (GetServiceAttrError err)]
      | Inr attr \<Rightarrow>
          returns [Invoke (CallGetServiceAttr (serviceCommonRequest f)),
                   Print (ServiceAttributes attr)])"

text \<open>
  \<open>listServiceMembers\<close> returns the members to its caller, or ends the process: the
  result is the run so far and, when the process goes on, the members.
\<close>

definition listServiceMembers ::
  "world \<Rightarrow> flags \<Rightarrow> run + (event list \<times> ServiceMember list)" where
  "listServiceMembers w f =
     (case ListServiceMember w (listServiceMemberRequest f) of
        Inl err \<Rightarrow>
          Inl (exit_minus_1 [Invoke (CallListServiceMember (listServiceMemberRequest f)),
                             Print (ListServiceMemberError err)])
      | Inr members \<Rightarrow>
          Inr ([Invoke (CallListServiceMember (listServiceMemberRequest f))], members))"

definition deleteService :: "world \<Rightarrow> flags \<Rightarrow> run" where
  "deleteService w f =
     (case listServiceMembers w f of
        Inl r \<Rightarrow> r
      | Inr (es, members) \<Rightarrow>
          (let volIDs = map VolumeID members in
           case DeleteService w (serviceCommonRequest f) of
             Some err \<Rightarrow>
               exit_minus_1
                 (es @ [Invoke (CallDeleteService (serviceCommonRequest f)),
                        Print (DeleteServiceError err)])
           | None \<Rightarrow>
               returns
                 (es @ [Invoke (CallDeleteService (serviceCommonRequest f)),
                        Print (ServiceDeletedDeleteVolumes volIDs)])))"

definition getConfig :: "world \<Rightarrow> flags \<Rightarrow> run" where
  "getConfig w f =
     (if serviceUUID f = [] \<or> fileID f = [] then
        exit_minus_1 [Print PleaseSpecifyUUIDAndFileID]
      else
        (case GetConfigFile w (getConfigFileRequest f) of
           Inl err \<Rightarrow>
             exit_minus_1 [Invoke (CallGetConfigFile (getConfigFileRequest f)),
                           Print (GetConfigFileError err)]
         | Inr cfg \<Rightarrow>
             returns [Invoke (CallGetConfigFile (getConfigFileRequest f)),
                      Print (ConfigFileContent cfg)]))"

subsection \<open>The entry point\<close>

text \<open>
  \<^verbatim>\<open>strings.ToLower\<close> on the bytes of the service type. When every byte is below
  \<^verbatim>\<open>utf8.RuneSelf\<close>, which is 128, the library maps the letters A to Z to a to z and
  leaves the other bytes as they are. Otherwise it decodes the string and lowers every
  rune with the Unicode tables, which is left to \<open>MapUnicodeToLower\<close>.
\<close>

definition isASCII :: "char \<Rightarrow> bool" where
  "isASCII ch \<longleftrightarrow> (of_char ch :: nat) < 128"

definition toLowerChar :: "char \<Rightarrow> char" where
  "toLowerChar ch =
     (if 65 \<le> (of_char ch :: nat) \<and> (of_char ch :: nat) \<le> 90
      then char_of ((of_char ch :: nat) + 32) else ch)"

definition ToLower :: "world \<Rightarrow> string \<Rightarrow> string" where
  "ToLower w s = (if list_all isASCII s then map toLowerChar s else MapUnicodeToLower w s)"

text \<open>The switch on the operation (lines 134-176), after the client has been built.\<close>

definition dispatch :: "common \<Rightarrow> world \<Rightarrow> flags \<Rightarrow> run option" where
  "dispatch c w f =
     (if op f = opCreate then
        (if serviceType f = CatalogService_MongoDB then createMongoDBService c w f
         else if serviceType f = CatalogService_PostgreSQL then
           Some (createPostgreSQLService w f)
         else Some (exit_minus_1 [Print InvalidServiceType]))
      else if op f = opCheckInit then Some (checkServiceInit w f)
      else if op f = opDelete then Some (deleteService w f)
      else if op f = opList then Some (listServices w f)
      else if op f = opGet then Some (getService w f)
      else if op f = opListMembers then
        (case listServiceMembers w f of
           Inl r \<Rightarrow> Some r
         | Inr (es, members) \<Rightarrow> Some (returns (es @ [Print (ListOfMembers members)])))
      else if op f = opGetConfig then Some (getConfig w f)
      else Some (exit_minus_1 [Print InvalidOperation]))"

text \<open>
  \<open>main\<close> (lines 90-177): the checks of the flags, the region, the TLS configuration,
  the server URL and the client, and then the switch.
\<close>

definition main :: "common \<Rightarrow> world \<Rightarrow> flags \<Rightarrow> run option" where
  "main c w f =
     (if op f \<noteq> opList \<and> service f = [] then
        Some (exit_minus_1 [Print PleaseSpecifyServiceName])
      else if tlsEnabled f \<and> (caFile f = [] \<or> certFile f = [] \<or> keyFile f = []) then
        Some (exit_minus_1 [Print TLSEnabledWithoutFiles])
      else
        (case (if region f = [] then GetLocalEc2Region w else Inr (region f)) of
           Inl err \<Rightarrow> Some (exit_minus_1 [Print PleaseSpecifyRegion])
         | Inr r \<Rightarrow>
             (case (if tlsEnabled f
                    then GenClientTLSConfig w (caFile f) (certFile f) (keyFile f)
                    else None) of
                Some err \<Rightarrow> Some (exit_minus_1 [Print (GenClientTLSConfigError err)])
              | None \<Rightarrow>
                  (let url = (if serverURL f = []
                              then GetDefaultManageServiceURL w (cluster f) (tlsEnabled f)
                              else FormatManageServiceURL w (serverURL f) (tlsEnabled f))
                   in map_option (after [NewManageClient url (tlsEnabled f)])
                        (dispatch c w
                           (f\<lparr>region := r, serverURL := url,
                              serviceType := ToLower w (serviceType f)\<rparr>))))))"

subsection \<open>Observations on runs\<close>

text \<open>
  What one pass of the wait loop that does not end the loop adds to the run: the call,
  the printed error if the call failed, and the sleep of ten seconds.
\<close>

definition passEvents :: "world \<Rightarrow> CatalogCheckServiceInitRequest \<Rightarrow> nat \<Rightarrow> event list" where
  "passEvents w rq n =
     (case CatalogCheckServiceInit w n rq of
        Inl err \<Rightarrow>
          [Invoke (CallCatalogCheckServiceInit rq), Print (CheckServiceInitError err), Sleep 10]
      | Inr initialized \<Rightarrow> [Invoke (CallCatalogCheckServiceInit rq), Sleep 10])"

text \<open>The events of the passes \<open>0\<close> to \<open>m - 1\<close> of the wait loop.\<close>

definition passesEvents :: "world \<Rightarrow> CatalogCheckServiceInitRequest \<Rightarrow> nat \<Rightarrow> event list" where
  "passesEvents w rq m = concat (map (passEvents w rq) [0..<m])"

text \<open>The number of calls of \<open>CatalogCheckServiceInit\<close> in a run.\<close>

fun isCheckInitCall :: "event \<Rightarrow> bool" where
  "isCheckInitCall (Invoke (CallCatalogCheckServiceInit rq)) = True"
| "isCheckInitCall e = False"

definition checkInitCalls :: "run \<Rightarrow> nat" where
  "checkInitCalls r = length (filter isCheckInitCall (fst r))"

text \<open>The calls that create a service.\<close>

fun isCreateCall :: "event \<Rightarrow> bool" where
  "isCreateCall (Invoke (CallCatalogCreateMongoDBService rq)) = True"
| "isCreateCall (Invoke (CallCatalogCreatePostgreSQLService rq)) = True"
| "isCreateCall e = False"

text \<open>
  A management service that answers as \<open>w\<close> does, except that it never fails a
  \<open>CatalogCheckServiceInit\<close> call: where \<open>w\<close> returns an error, it answers that the
  service is not initialized yet.
\<close>

definition withoutCheckInitErrors :: "world \<Rightarrow> world" where
  "withoutCheckInitErrors w =
     w\<lparr>CatalogCheckServiceInit :=
         (\<lambda>n rq. case CatalogCheckServiceInit w n rq of
                   Inl err \<Rightarrow> Inr False
                 | Inr initialized \<Rightarrow> Inr initialized)\<rparr>"

subsection \<open>Example inputs\<close>

text \<open>
  The constants of the wait: with these values the loop makes at most ten passes.
\<close>

definition exampleCommon :: common where
  "exampleCommon = \<lparr>DefaultServiceWaitSeconds = 100, DefaultRetryWaitSeconds = 10\<rparr>"

text \<open>
  A management service on which every call succeeds, with two members for every
  service; \<open>chk\<close> gives the answer to the \<open>n\<close>-th \<open>CatalogCheckServiceInit\<close> call.
\<close>

definition exampleWorld :: "(nat \<Rightarrow> error + bool) \<Rightarrow> world" where
  "exampleWorld chk =
     \<lparr>GetLocalEc2Region = Inr ''us-west-1'',
      GenClientTLSConfig = (\<lambda>ca cert key. None),
      GetDefaultManageServiceURL = (\<lambda>cl tls. ''manageserver'' ),
      FormatManageServiceURL = (\<lambda>url tls. url),
      CatalogCreateMongoDBService = (\<lambda>rq. None),
      CatalogCreatePostgreSQLService = (\<lambda>rq. None),
      CatalogCheckServiceInit = (\<lambda>n rq. chk n),
      ListService = (\<lambda>rq. Inr []),
      GetServiceAttr = (\<lambda>rq. Inr ''attr''),
      ListServiceMember =
        (\<lambda>rq. Inr [\<lparr>VolumeID = ''vol-1'', Configs = []\<rparr>,
                  \<lparr>VolumeID = ''vol-2'', Configs = []\<rparr>]),
      DeleteService = (\<lambda>rq. None),
      GetConfigFile = (\<lambda>rq. Inr ''cfg''),
      MapUnicodeToLower = (\<lambda>s. s)\<rparr>"

text \<open>
  The command line \<^verbatim>\<open>-op=create-service -service-type=mongodb -region=us-west-1
  -service=svcA -volume-size=20\<close>, the other flags at their defaults.
\<close>

definition exampleFlags :: flags where
  "exampleFlags =
     \<lparr>op = ''create-service'', serviceType = ''mongodb'', cluster = ''default'',
      serverURL = [], region = ''us-west-1'', service = ''svcA'',
      replicas = 3, volSizeGB = 20, cpuUnits = 256, reserveMemMB = 256,
      admin = ''dbadmin'', adminPasswd = ''changeme'',
      tlsEnabled = False, caFile = [], certFile = [], keyFile = [],
      replUser = ''repluser'', replUserPasswd = ''replpassword'',
      serviceUUID = [], fileID = []\<rparr>"

text \<open>The service request that the handlers build from \<open>exampleFlags\<close>.\<close>

definition exampleService :: ServiceCommonRequest where
  "exampleService =
     \<lparr>ServiceCommonRequest.Region = ''us-west-1'',
      ServiceCommonRequest.Cluster = ''default'',
      ServiceName = ''svcA''\<rparr>"

section \<open>Properties\<close>

subsection \<open>The deletion workflow\<close>

text \<open>
  C1, as stated, fails. With two members listed and a failing \<open>DeleteService\<close> call the
  run is the list call, the delete call and the printed delete error, with status -1:
  the volumes \<open>vol-1\<close> and \<open>vol-2\<close> are not printed.
\<close>

theorem deleteService_failure_hides_volumes:
  "deleteService
     ((exampleWorld (\<lambda>n. Inr True))\<lparr>DeleteService := (\<lambda>rq. Some ''internal error'')\<rparr>)
     exampleFlags =
   ([Invoke (CallListServiceMember \<lparr>ListServiceMemberRequest.Service = exampleService\<rparr>),
     Invoke (CallDeleteService exampleService),
     Print (DeleteServiceError ''internal error'')], - 1)
   \<and> Print (ServiceDeletedDeleteVolumes [''vol-1'', ''vol-2'']) \<notin>
       set (fst (deleteService
         ((exampleWorld (\<lambda>n. Inr True))\<lparr>DeleteService := (\<lambda>rq. Some ''internal error'')\<rparr>)
         exampleFlags))"
  by (simp add: deleteService_def listServiceMembers_def listServiceMemberRequest_def
      serviceCommonRequest_def exampleWorld_def exampleFlags_def exampleService_def
      exit_minus_1_def)

text \<open>
  C1, amended: when the list call succeeds, the volumes of the listed members are
  printed, after the delete call, exactly when the delete call succeeds, and the status
  is then 0; when the delete call fails, the run ends with the printed error of the
  delete call and status -1.
\<close>

theorem deleteService_after_list:
  assumes "ListServiceMember w (listServiceMemberRequest f) = Inr members"
  shows "(DeleteService w (serviceCommonRequest f) = None \<longrightarrow>
            deleteService w f =
              ([Invoke (CallListServiceMember (listServiceMemberRequest f)),
                Invoke (CallDeleteService (serviceCommonRequest f)),
                Print (ServiceDeletedDeleteVolumes (map VolumeID members))], 0))
       \<and> (\<forall>err. DeleteService w (serviceCommonRequest f) = Some err \<longrightarrow>
            deleteService w f =
              ([Invoke (CallListServiceMember (listServiceMemberRequest f)),
                Invoke (CallDeleteService (serviceCommonRequest f)),
                Print (DeleteServiceError err)], - 1))"
  using assms
  by (simp add: deleteService_def listServiceMembers_def returns_def exit_minus_1_def)

theorem deleteService_after_list_witness:
  "ListServiceMember (exampleWorld (\<lambda>n. Inr True)) (listServiceMemberRequest exampleFlags) =
     Inr [\<lparr>VolumeID = ''vol-1'', Configs = []\<rparr>, \<lparr>VolumeID = ''vol-2'', Configs = []\<rparr>]
   \<and> DeleteService (exampleWorld (\<lambda>n. Inr True)) (serviceCommonRequest exampleFlags) = None
   \<and> deleteService (exampleWorld (\<lambda>n. Inr True)) exampleFlags =
       ([Invoke (CallListServiceMember \<lparr>ListServiceMemberRequest.Service = exampleService\<rparr>),
         Invoke (CallDeleteService exampleService),
         Print (ServiceDeletedDeleteVolumes [''vol-1'', ''vol-2''])], 0)"
proof -
  have l: "ListServiceMember (exampleWorld (\<lambda>n. Inr True)) (listServiceMemberRequest exampleFlags) =
     Inr [\<lparr>VolumeID = ''vol-1'', Configs = []\<rparr>, \<lparr>VolumeID = ''vol-2'', Configs = []\<rparr>]"
    by (simp add: exampleWorld_def)
  have d: "DeleteService (exampleWorld (\<lambda>n. Inr True)) (serviceCommonRequest exampleFlags) = None"
    by (simp add: exampleWorld_def)
  have rq: "listServiceMemberRequest exampleFlags = \<lparr>ListServiceMemberRequest.Service = exampleService\<rparr>"
    "serviceCommonRequest exampleFlags = exampleService"
    by (simp_all add: listServiceMemberRequest_def serviceCommonRequest_def exampleFlags_def
        exampleService_def)
  show ?thesis
    using l d deleteService_after_list [OF l] by (simp add: rq)
qed

text \<open>
  C8: in every run of \<open>deleteService\<close> a \<open>DeleteService\<close> call comes after the
  \<open>ListServiceMember\<close> call; and when the \<open>ListServiceMember\<close> call fails, the status
  is not 0 and the run has no \<open>DeleteService\<close> call.
\<close>

theorem deleteService_lists_first:
  "(\<forall>es1 es2 rq. fst (deleteService w f) = es1 @ Invoke (CallDeleteService rq) # es2 \<longrightarrow>
       Invoke (CallListServiceMember (listServiceMemberRequest f)) \<in> set es1)
   \<and> (\<forall>err. ListServiceMember w (listServiceMemberRequest f) = Inl err \<longrightarrow>
       snd (deleteService w f) \<noteq> 0
       \<and> (\<forall>rq. Invoke (CallDeleteService rq) \<notin> set (fst (deleteService w f))))"
proof (intro conjI allI impI)
  fix es1 es2 rq
  assume "fst (deleteService w f) = es1 @ Invoke (CallDeleteService rq) # es2"
  then show "Invoke (CallListServiceMember (listServiceMemberRequest f)) \<in> set es1"
    by (auto simp: deleteService_def listServiceMembers_def returns_def exit_minus_1_def
        Cons_eq_append_conv split: sum.splits option.splits)
next
  fix err
  assume "ListServiceMember w (listServiceMemberRequest f) = Inl err"
  then show "snd (deleteService w f) \<noteq> 0"
    by (simp add: deleteService_def listServiceMembers_def exit_minus_1_def)
next
  fix err rq
  assume "ListServiceMember w (listServiceMemberRequest f) = Inl err"
  then show "Invoke (CallDeleteService rq) \<notin> set (fst (deleteService w f))"
    by (simp add: deleteService_def listServiceMembers_def exit_minus_1_def)
qed

theorem deleteService_lists_first_witness:
  "fst (deleteService (exampleWorld (\<lambda>n. Inr True)) exampleFlags) =
     [Invoke (CallListServiceMember (listServiceMemberRequest exampleFlags))]
     @ Invoke (CallDeleteService exampleService)
     # [Print (ServiceDeletedDeleteVolumes [''vol-1'', ''vol-2''])]
   \<and> Invoke (CallListServiceMember (listServiceMemberRequest exampleFlags)) \<in>
       set [Invoke (CallListServiceMember (listServiceMemberRequest exampleFlags))]
   \<and> ListServiceMember
        ((exampleWorld (\<lambda>n. Inr True))\<lparr>ListServiceMember := (\<lambda>rq. Inl ''not found'')\<rparr>)
        (listServiceMemberRequest exampleFlags) = Inl ''not found''
   \<and> snd (deleteService
        ((exampleWorld (\<lambda>n. Inr True))\<lparr>ListServiceMember := (\<lambda>rq. Inl ''not found'')\<rparr>)
        exampleFlags) \<noteq> 0
   \<and> Invoke (CallDeleteService exampleService) \<notin>
       set (fst (deleteService
        ((exampleWorld (\<lambda>n. Inr True))\<lparr>ListServiceMember := (\<lambda>rq. Inl ''not found'')\<rparr>)
        exampleFlags))"
proof -
  have run: "fst (deleteService (exampleWorld (\<lambda>n. Inr True)) exampleFlags) =
     [Invoke (CallListServiceMember (listServiceMemberRequest exampleFlags))]
     @ Invoke (CallDeleteService exampleService)
     # [Print (ServiceDeletedDeleteVolumes [''vol-1'', ''vol-2''])]"
    by (simp add: deleteService_def listServiceMembers_def serviceCommonRequest_def
        exampleWorld_def exampleFlags_def exampleService_def returns_def)
  have fails: "ListServiceMember
        ((exampleWorld (\<lambda>n. Inr True))\<lparr>ListServiceMember := (\<lambda>rq. Inl ''not found'')\<rparr>)
        (listServiceMemberRequest exampleFlags) = Inl ''not found''"
    by simp
  from deleteService_lists_first
    [of "exampleWorld (\<lambda>n. Inr True)" exampleFlags]
  have first: "Invoke (CallListServiceMember (listServiceMemberRequest exampleFlags)) \<in>
       set [Invoke (CallListServiceMember (listServiceMemberRequest exampleFlags))]"
    using run by blast
  from deleteService_lists_first
    [of "(exampleWorld (\<lambda>n. Inr True))\<lparr>ListServiceMember := (\<lambda>rq. Inl ''not found'')\<rparr>"
        exampleFlags]
  have "snd (deleteService
        ((exampleWorld (\<lambda>n. Inr True))\<lparr>ListServiceMember := (\<lambda>rq. Inl ''not found'')\<rparr>)
        exampleFlags) \<noteq> 0
   \<and> Invoke (CallDeleteService exampleService) \<notin>
       set (fst (deleteService
        ((exampleWorld (\<lambda>n. Inr True))\<lparr>ListServiceMember := (\<lambda>rq. Inl ''not found'')\<rparr>)
        exampleFlags))"
    using fails by blast
  with run first fails show ?thesis by blast
qed

subsection \<open>Exit status\<close>

text \<open>
  C2: the run of \<^verbatim>\<open>-op=check-service-init\<close> against a management service that fails
  the \<open>CatalogCheckServiceInit\<close> call. \<open>checkServiceInit\<close> prints the error and
  returns, so the process ends with status 0, where every other handler leaves with
  \<^verbatim>\<open>os.Exit(-1)\<close> on the error of its call.
\<close>

theorem checkServiceInit_error_exits_0:
  "main exampleCommon (exampleWorld (\<lambda>n. Inl ''connection refused''))
     (exampleFlags\<lparr>op := ''check-service-init''\<rparr>) =
   Some ([NewManageClient ''manageserver'' False,
          Invoke (CallCatalogCheckServiceInit
            \<lparr>ServiceType = ''mongodb'',
             CatalogCheckServiceInitRequest.Service = exampleService,
             CatalogCheckServiceInitRequest.Admin = ''dbadmin'',
             CatalogCheckServiceInitRequest.AdminPasswd = ''changeme''\<rparr>),
          Print (CheckServiceInitError ''connection refused'')], 0)"
  by (simp add: main_def dispatch_def checkServiceInit_def checkInitRequest_def
      serviceCommonRequest_def exampleWorld_def exampleFlags_def exampleService_def
      opList_def opCreate_def opCheckInit_def ToLower_def toLowerChar_def isASCII_def
      after_def returns_def)

subsection \<open>The checks of the flags\<close>

text \<open>
  C3: the run of \<^verbatim>\<open>-op=create-service -service-type=postgresql -replicas=-1
  -volume-size=-20\<close>. The handlers compare the two flags with 0 only, so the request
  with the negative values is sent to the management service, and with a service that
  accepts it the process ends with status 0. The same holds of \<open>createMongoDBService\<close>.
\<close>

theorem create_accepts_negative_sizes:
  "sint (replicas (exampleFlags\<lparr>replicas := - 1, volSizeGB := - 20\<rparr>)) = - 1
   \<and> sint (volSizeGB (exampleFlags\<lparr>replicas := - 1, volSizeGB := - 20\<rparr>)) = - 20
   \<and> createPostgreSQLService (exampleWorld (\<lambda>n. Inr True))
        (exampleFlags\<lparr>replicas := - 1, volSizeGB := - 20\<rparr>) =
      ([Invoke (CallCatalogCreatePostgreSQLService
          (postgreSQLRequest (exampleFlags\<lparr>replicas := - 1, volSizeGB := - 20\<rparr>))),
        Print PostgreSQLServiceCreated], 0)
   \<and> createMongoDBService exampleCommon (exampleWorld (\<lambda>n. Inr True))
        (exampleFlags\<lparr>replicas := - 1, volSizeGB := - 20\<rparr>) =
      Some ([Invoke (CallCatalogCreateMongoDBService
          (mongoDBRequest (exampleFlags\<lparr>replicas := - 1, volSizeGB := - 20\<rparr>))),
        Print CreatedWaitTillInitialized,
        Invoke (CallCatalogCheckServiceInit
          (initReq (exampleFlags\<lparr>replicas := - 1, volSizeGB := - 20\<rparr>))),
        Print CatalogServiceInitialized], 0)"
proof -
  have neg: "(- 1 :: int64) \<noteq> 0" "(- 20 :: int64) \<noteq> 0"
    by simp_all
  have s: "sint (- 1 :: int64) = - 1" "sint (- 20 :: int64) = - 20"
    by simp_all
  show ?thesis
    using neg s
    by (simp add: createPostgreSQLService_def createMongoDBService_def waitLoop.simps
        exampleWorld_def exampleFlags_def exampleCommon_def returns_def)
qed

text \<open>
  C9, as stated, fails. Without \<^verbatim>\<open>-tls-enabled\<close> the three file flags are not looked
  at: \<^verbatim>\<open>-op=list-services -ca-file=ca.pem\<close> sets one of the three, and the run lists
  the services and ends with status 0. With \<^verbatim>\<open>-tls-enabled\<close> and none of the three
  set, the run is rejected.
\<close>

theorem partial_tls_files_accepted_without_tls:
  "main exampleCommon (exampleWorld (\<lambda>n. Inr True))
     (exampleFlags\<lparr>op := ''list-services'', caFile := ''ca.pem''\<rparr>) =
   Some ([NewManageClient ''manageserver'' False,
          Invoke (CallListService
            \<lparr>ListServiceRequest.Region = ''us-west-1'',
             ListServiceRequest.Cluster = ''default'', Prefix = []\<rparr>),
          Print (ListOfServices [])], 0)
   \<and> main exampleCommon (exampleWorld (\<lambda>n. Inr True))
     (exampleFlags\<lparr>op := ''list-services'', tlsEnabled := True\<rparr>) =
   Some ([Print TLSEnabledWithoutFiles], - 1)"
  by (simp add: main_def dispatch_def listServices_def listServiceRequest_def
      exampleWorld_def exampleFlags_def
      opList_def opCreate_def opCheckInit_def opDelete_def ToLower_def toLowerChar_def
      isASCII_def
      after_def returns_def exit_minus_1_def)

text \<open>
  C9, amended: of the runs that pass the check of the service name, exactly those with
  \<^verbatim>\<open>-tls-enabled\<close> and fewer than three of the ca, cert and key files set (none, one or
  two) end at the check of the TLS flags, with the message of that check as the only
  event and status -1. Without \<^verbatim>\<open>-tls-enabled\<close> every combination of the three
  flags passes the check.
\<close>

theorem main_tls_check:
  assumes "op f = opList \<or> service f \<noteq> []"
  shows "main c w f = Some ([Print TLSEnabledWithoutFiles], - 1) \<longleftrightarrow>
         tlsEnabled f \<and> (caFile f = [] \<or> certFile f = [] \<or> keyFile f = [])"
proof
  assume "tlsEnabled f \<and> (caFile f = [] \<or> certFile f = [] \<or> keyFile f = [])"
  with assms show "main c w f = Some ([Print TLSEnabledWithoutFiles], - 1)"
    by (auto simp: main_def exit_minus_1_def)
next
  assume rejected: "main c w f = Some ([Print TLSEnabledWithoutFiles], - 1)"
  show "tlsEnabled f \<and> (caFile f = [] \<or> certFile f = [] \<or> keyFile f = [])"
  proof (rule ccontr)
    assume passed: "\<not> (tlsEnabled f \<and> (caFile f = [] \<or> certFile f = [] \<or> keyFile f = []))"
    have client: "map_option (after [NewManageClient url tls]) r \<noteq>
        Some ([Print TLSEnabledWithoutFiles], - 1)" for url tls r
      by (cases r) (simp_all add: after_def)
    from rejected passed assms client show False
      by (auto simp: main_def exit_minus_1_def Let_def split: sum.splits option.splits if_splits)
  qed
qed

theorem main_tls_check_witness:
  "(op (exampleFlags\<lparr>tlsEnabled := True, caFile := ''ca.pem'', keyFile := ''key.pem''\<rparr>) = opList
     \<or> service (exampleFlags\<lparr>tlsEnabled := True, caFile := ''ca.pem'', keyFile := ''key.pem''\<rparr>)
        \<noteq> [])
   \<and> main exampleCommon (exampleWorld (\<lambda>n. Inr True))
       (exampleFlags\<lparr>tlsEnabled := True, caFile := ''ca.pem'', keyFile := ''key.pem''\<rparr>) =
     Some ([Print TLSEnabledWithoutFiles], - 1)"
proof -
  have name: "op (exampleFlags\<lparr>tlsEnabled := True, caFile := ''ca.pem'', keyFile := ''key.pem''\<rparr>)
      = opList
     \<or> service (exampleFlags\<lparr>tlsEnabled := True, caFile := ''ca.pem'', keyFile := ''key.pem''\<rparr>)
        \<noteq> []"
    by (simp add: exampleFlags_def)
  show ?thesis
    using name main_tls_check [OF name, of exampleCommon "exampleWorld (\<lambda>n. Inr True)"]
    by (simp add: exampleFlags_def)
qed

subsection \<open>The requests of the create handlers\<close>

text \<open>
  C10: in the create request of either service type the maximum and the reserved CPU
  units are both the \<^verbatim>\<open>cpu-units\<close> flag, and the maximum and the reserved memory are
  both the \<^verbatim>\<open>soft-memory\<close> flag. So the reserved amounts do not exceed the maxima,
  and no flag sets a maximum apart from its reservation.
\<close>

theorem create_requests_max_is_reserve:
  "MaxCPUUnits (CatalogCreateMongoDBRequest.Resource (mongoDBRequest f)) = cpuUnits f
   \<and> ReserveCPUUnits (CatalogCreateMongoDBRequest.Resource (mongoDBRequest f)) = cpuUnits f
   \<and> MaxMemMB (CatalogCreateMongoDBRequest.Resource (mongoDBRequest f)) = reserveMemMB f
   \<and> ReserveMemMB (CatalogCreateMongoDBRequest.Resource (mongoDBRequest f)) = reserveMemMB f
   \<and> MaxCPUUnits (CatalogCreatePostgreSQLRequest.Resource (postgreSQLRequest f)) = cpuUnits f
   \<and> ReserveCPUUnits (CatalogCreatePostgreSQLRequest.Resource (postgreSQLRequest f)) = cpuUnits f
   \<and> MaxMemMB (CatalogCreatePostgreSQLRequest.Resource (postgreSQLRequest f)) = reserveMemMB f
   \<and> ReserveMemMB (CatalogCreatePostgreSQLRequest.Resource (postgreSQLRequest f)) = reserveMemMB f
   \<and> sint (ReserveCPUUnits (CatalogCreateMongoDBRequest.Resource (mongoDBRequest f)))
       \<le> sint (MaxCPUUnits (CatalogCreateMongoDBRequest.Resource (mongoDBRequest f)))
   \<and> sint (ReserveMemMB (CatalogCreateMongoDBRequest.Resource (mongoDBRequest f)))
       \<le> sint (MaxMemMB (CatalogCreateMongoDBRequest.Resource (mongoDBRequest f)))
   \<and> sint (ReserveCPUUnits (CatalogCreatePostgreSQLRequest.Resource (postgreSQLRequest f)))
       \<le> sint (MaxCPUUnits (CatalogCreatePostgreSQLRequest.Resource (postgreSQLRequest f)))
   \<and> sint (ReserveMemMB (CatalogCreatePostgreSQLRequest.Resource (postgreSQLRequest f)))
       \<le> sint (MaxMemMB (CatalogCreatePostgreSQLRequest.Resource (postgreSQLRequest f)))"
  by (simp add: mongoDBRequest_def postgreSQLRequest_def resources_def)

subsection \<open>The wait loop\<close>

text \<open>An addition that stays in the range of \<^verbatim>\<open>int64\<close> does not wrap around.\<close>

lemma add_int64_in_range:
  assumes "- (2 ^ 63) \<le> a + b" and "a + b < 2 ^ 63"
  shows "add_int64 a b = a + b"
proof -
  have "0 \<le> a + b + 2 ^ 63" and "a + b + 2 ^ 63 < 2 ^ 64"
    using assms by simp_all
  then have "(a + b + 2 ^ 63) mod 2 ^ 64 = a + b + 2 ^ 63"
    by (rule mod_pos_pos_trivial)
  then show ?thesis
    by (simp add: add_int64_def)
qed

text \<open>The three ways through the body of the loop.\<close>

lemma waitLoop_pass:
  assumes "sec < DefaultServiceWaitSeconds c"
    and "CatalogCheckServiceInit w n rq \<noteq> Inr True"
  shows "waitLoop c w rq n sec es =
         waitLoop c w rq (Suc n) (add_int64 sec (DefaultRetryWaitSeconds c))
           (es @ passEvents w rq n)"
  using assms
  by (subst waitLoop.simps) (auto simp: passEvents_def split: sum.splits)

lemma waitLoop_initialized:
  assumes "sec < DefaultServiceWaitSeconds c"
    and "CatalogCheckServiceInit w n rq = Inr True"
  shows "waitLoop c w rq n sec es =
         Some (es @ [Invoke (CallCatalogCheckServiceInit rq), Print CatalogServiceInitialized], 0)"
  using assms
  by (subst waitLoop.simps) (simp add: returns_def)

lemma waitLoop_timed_out:
  assumes "\<not> sec < DefaultServiceWaitSeconds c"
  shows "waitLoop c w rq n sec es =
         Some (es @ [Print (NotInitializedAfter (DefaultServiceWaitSeconds c))], - 1)"
  using assms
  by (subst waitLoop.simps) (simp add: exit_minus_1_def)

text \<open>
  As long as no pass ends the loop, the loop variable at the \<open>n\<close>-th pass is \<open>n\<close> times
  the retry constant: the additions do not wrap around when the sum of the two
  constants is in the range of \<^verbatim>\<open>int64\<close>.
\<close>

lemma waitLoop_passes_from:
  assumes R: "0 \<le> DefaultRetryWaitSeconds c"
    and B: "DefaultServiceWaitSeconds c + DefaultRetryWaitSeconds c \<le> 2 ^ 63"
    and P: "\<forall>i<m. int (n + i) * DefaultRetryWaitSeconds c < DefaultServiceWaitSeconds c
                 \<and> CatalogCheckServiceInit w (n + i) rq \<noteq> Inr True"
  shows "waitLoop c w rq n (int n * DefaultRetryWaitSeconds c) es =
         waitLoop c w rq (n + m) (int (n + m) * DefaultRetryWaitSeconds c)
           (es @ concat (map (passEvents w rq) [n..<n + m]))"
  using P
proof (induction m arbitrary: n es)
  case 0
  show ?case by simp
next
  case (Suc m)
  from Suc.prems have here:
    "int n * DefaultRetryWaitSeconds c < DefaultServiceWaitSeconds c"
    "CatalogCheckServiceInit w n rq \<noteq> Inr True"
    by (auto dest: spec [of _ 0])
  have later: "\<forall>i<m. int (Suc n + i) * DefaultRetryWaitSeconds c < DefaultServiceWaitSeconds c
                 \<and> CatalogCheckServiceInit w (Suc n + i) rq \<noteq> Inr True"
  proof (intro allI impI)
    fix i
    assume "i < m"
    then have "Suc i < Suc m" by simp
    with Suc.prems
    show "int (Suc n + i) * DefaultRetryWaitSeconds c < DefaultServiceWaitSeconds c
            \<and> CatalogCheckServiceInit w (Suc n + i) rq \<noteq> Inr True"
      by (metis add_Suc_shift)
  qed
  define x where "x = int n * DefaultRetryWaitSeconds c"
  have nonneg: "0 \<le> x"
    using R by (simp add: x_def)
  have below: "x < DefaultServiceWaitSeconds c"
    using here(1) by (simp add: x_def)
  have "add_int64 x (DefaultRetryWaitSeconds c) = x + DefaultRetryWaitSeconds c"
  proof (rule add_int64_in_range)
    have "(0::int) \<le> 2 ^ 63" by simp
    then show "- (2 ^ 63) \<le> x + DefaultRetryWaitSeconds c"
      using nonneg R by linarith
    show "x + DefaultRetryWaitSeconds c < 2 ^ 63"
      using below B by linarith
  qed
  then have "add_int64 (int n * DefaultRetryWaitSeconds c) (DefaultRetryWaitSeconds c)
      = int n * DefaultRetryWaitSeconds c + DefaultRetryWaitSeconds c"
    by (simp add: x_def)
  also have "\<dots> = int (Suc n) * DefaultRetryWaitSeconds c"
    by (simp add: algebra_simps)
  finally have step:
    "waitLoop c w rq n (int n * DefaultRetryWaitSeconds c) es =
     waitLoop c w rq (Suc n) (int (Suc n) * DefaultRetryWaitSeconds c) (es @ passEvents w rq n)"
    using waitLoop_pass [OF here, of es] by simp
  have "[n..<n + Suc m] = n # [Suc n..<Suc n + m]"
    by (simp add: upt_conv_Cons)
  then show ?case
    using step Suc.IH [OF later, of "es @ passEvents w rq n"] by simp
qed

text \<open>
  The run of the loop, given the first pass \<open>m\<close> that ends it: the first pass that
  finds the loop variable at the wait constant or beyond, or that gets the answer true.
\<close>

lemma waitLoop_stops_at:
  assumes R: "0 \<le> DefaultRetryWaitSeconds c"
    and B: "DefaultServiceWaitSeconds c + DefaultRetryWaitSeconds c \<le> 2 ^ 63"
    and P: "\<forall>i<m. int i * DefaultRetryWaitSeconds c < DefaultServiceWaitSeconds c
                 \<and> CatalogCheckServiceInit w i rq \<noteq> Inr True"
    and S: "\<not> int m * DefaultRetryWaitSeconds c < DefaultServiceWaitSeconds c
            \<or> CatalogCheckServiceInit w m rq = Inr True"
  shows "waitLoop c w rq 0 0 es =
         Some (if int m * DefaultRetryWaitSeconds c < DefaultServiceWaitSeconds c
               then (es @ passesEvents w rq m
                       @ [Invoke (CallCatalogCheckServiceInit rq), Print CatalogServiceInitialized], 0)
               else (es @ passesEvents w rq m
                       @ [Print (NotInitializedAfter (DefaultServiceWaitSeconds c))], - 1))"
proof -
  from P have "\<forall>i<m. int (0 + i) * DefaultRetryWaitSeconds c < DefaultServiceWaitSeconds c
                 \<and> CatalogCheckServiceInit w (0 + i) rq \<noteq> Inr True"
    by simp
  from waitLoop_passes_from [OF R B this, of es]
  have passes: "waitLoop c w rq 0 0 es =
      waitLoop c w rq m (int m * DefaultRetryWaitSeconds c) (es @ passesEvents w rq m)"
    by (simp add: passesEvents_def)
  show ?thesis
  proof (cases "int m * DefaultRetryWaitSeconds c < DefaultServiceWaitSeconds c")
    case True
    with S have "CatalogCheckServiceInit w m rq = Inr True"
      by simp
    from waitLoop_initialized [OF True this] passes True show ?thesis
      by simp
  next
    case False
    from waitLoop_timed_out [OF False] passes False show ?thesis
      by simp
  qed
qed

text \<open>With a positive retry constant some pass ends the loop.\<close>

lemma waitLoop_last_pass:
  assumes R: "0 < DefaultRetryWaitSeconds c"
  shows "\<exists>m. (\<forall>i<m. int i * DefaultRetryWaitSeconds c < DefaultServiceWaitSeconds c
                 \<and> CatalogCheckServiceInit w i rq \<noteq> Inr True)
           \<and> (\<not> int m * DefaultRetryWaitSeconds c < DefaultServiceWaitSeconds c
                 \<or> CatalogCheckServiceInit w m rq = Inr True)"
proof -
  define stop where "stop m \<longleftrightarrow>
      \<not> int m * DefaultRetryWaitSeconds c < DefaultServiceWaitSeconds c
      \<or> CatalogCheckServiceInit w m rq = Inr True" for m
  have "DefaultServiceWaitSeconds c \<le> int (nat (DefaultServiceWaitSeconds c)) * DefaultRetryWaitSeconds c"
  proof (cases "0 \<le> DefaultServiceWaitSeconds c")
    case True
    then have "DefaultServiceWaitSeconds c * 1 \<le> DefaultServiceWaitSeconds c * DefaultRetryWaitSeconds c"
      using R by (intro mult_left_mono) simp_all
    with True show ?thesis by simp
  next
    case False
    then show ?thesis by simp
  qed
  then have "stop (nat (DefaultServiceWaitSeconds c))"
    by (simp add: stop_def)
  then have "stop (LEAST m. stop m)" and "\<forall>i<LEAST m. stop m. \<not> stop i"
    by (auto intro: LeastI dest: not_less_Least)
  then show ?thesis
    unfolding stop_def by blast
qed

text \<open>The passes that do not end the loop call the service once each.\<close>

lemma passesEvents_calls:
  "length (filter isCheckInitCall (passesEvents w rq m)) = m"
  by (induction m) (simp_all add: passesEvents_def passEvents_def split: sum.splits)






text \<open>
  Replacing the errors of the \<open>CatalogCheckServiceInit\<close> calls by the answer "not
  initialized" does not change which calls get the answer "initialized".
\<close>

lemma withoutCheckInitErrors_initialized:
  "CatalogCheckServiceInit (withoutCheckInitErrors w) n rq = Inr True \<longleftrightarrow>
   CatalogCheckServiceInit w n rq = Inr True"
  by (simp add: withoutCheckInitErrors_def split: sum.splits)

text \<open>
  C6: with a positive retry constant the wait loop ends, whatever the management service
  answers. A call that fails counts as one pass and the loop goes on: the status is 0
  exactly when some call whose budget is below the wait constant, counted over all the
  calls made, gets the answer "initialized". The status and the number of calls are the
  same as with a management service that answers "not initialized" in place of every
  error.
\<close>

theorem waitLoop_errors_are_passes:
  assumes R: "0 < DefaultRetryWaitSeconds c"
    and B: "DefaultServiceWaitSeconds c + DefaultRetryWaitSeconds c \<le> 2 ^ 63"
  shows "\<exists>r r'. waitLoop c w rq 0 0 es = Some r
           \<and> waitLoop c (withoutCheckInitErrors w) rq 0 0 es = Some r'
           \<and> snd r' = snd r
           \<and> checkInitCalls r' = checkInitCalls r
           \<and> (snd r = 0 \<longleftrightarrow>
                (\<exists>j. int j * DefaultRetryWaitSeconds c < DefaultServiceWaitSeconds c
                     \<and> CatalogCheckServiceInit w j rq = Inr True))"
proof -
  from waitLoop_last_pass [OF R, of w rq]
  obtain m where
    P: "\<forall>i<m. int i * DefaultRetryWaitSeconds c < DefaultServiceWaitSeconds c
           \<and> CatalogCheckServiceInit w i rq \<noteq> Inr True"
    and S: "\<not> int m * DefaultRetryWaitSeconds c < DefaultServiceWaitSeconds c
           \<or> CatalogCheckServiceInit w m rq = Inr True"
    by blast
  have R0: "0 \<le> DefaultRetryWaitSeconds c"
    using R by simp
  from P have P': "\<forall>i<m. int i * DefaultRetryWaitSeconds c < DefaultServiceWaitSeconds c
           \<and> CatalogCheckServiceInit (withoutCheckInitErrors w) i rq \<noteq> Inr True"
    by (simp add: withoutCheckInitErrors_initialized)
  from S have S': "\<not> int m * DefaultRetryWaitSeconds c < DefaultServiceWaitSeconds c
           \<or> CatalogCheckServiceInit (withoutCheckInitErrors w) m rq = Inr True"
    by (simp add: withoutCheckInitErrors_initialized)
  define r where "r =
     (if int m * DefaultRetryWaitSeconds c < DefaultServiceWaitSeconds c
      then (es @ passesEvents w rq m
              @ [Invoke (CallCatalogCheckServiceInit rq), Print CatalogServiceInitialized], 0 :: int)
      else (es @ passesEvents w rq m
              @ [Print (NotInitializedAfter (DefaultServiceWaitSeconds c))], - 1))"
  define r' where "r' =
     (if int m * DefaultRetryWaitSeconds c < DefaultServiceWaitSeconds c
      then (es @ passesEvents (withoutCheckInitErrors w) rq m
              @ [Invoke (CallCatalogCheckServiceInit rq), Print CatalogServiceInitialized], 0 :: int)
      else (es @ passesEvents (withoutCheckInitErrors w) rq m
              @ [Print (NotInitializedAfter (DefaultServiceWaitSeconds c))], - 1))"
  have run: "waitLoop c w rq 0 0 es = Some r"
    using waitLoop_stops_at [OF R0 B P S, of es] by (simp add: r_def)
  have run': "waitLoop c (withoutCheckInitErrors w) rq 0 0 es = Some r'"
    using waitLoop_stops_at [OF R0 B P' S', of es] by (simp add: r'_def)
  have status: "snd r' = snd r"
    by (simp add: r_def r'_def)
  have calls: "checkInitCalls r' = checkInitCalls r"
    by (simp add: r_def r'_def checkInitCalls_def passesEvents_calls)
  have success: "snd r = 0 \<longleftrightarrow>
      (\<exists>j. int j * DefaultRetryWaitSeconds c < DefaultServiceWaitSeconds c
           \<and> CatalogCheckServiceInit w j rq = Inr True)"
  proof
    assume "snd r = 0"
    then have "int m * DefaultRetryWaitSeconds c < DefaultServiceWaitSeconds c"
      by (simp add: r_def split: if_splits)
    with S show "\<exists>j. int j * DefaultRetryWaitSeconds c < DefaultServiceWaitSeconds c
           \<and> CatalogCheckServiceInit w j rq = Inr True"
      by blast
  next
    assume "\<exists>j. int j * DefaultRetryWaitSeconds c < DefaultServiceWaitSeconds c
           \<and> CatalogCheckServiceInit w j rq = Inr True"
    then obtain j where j: "int j * DefaultRetryWaitSeconds c < DefaultServiceWaitSeconds c"
      "CatalogCheckServiceInit w j rq = Inr True"
      by blast
    have "int m * DefaultRetryWaitSeconds c < DefaultServiceWaitSeconds c"
    proof (rule ccontr)
      assume spent: "\<not> int m * DefaultRetryWaitSeconds c < DefaultServiceWaitSeconds c"
      from P j(2) have "\<not> j < m"
        by blast
      then have "int m * DefaultRetryWaitSeconds c \<le> int j * DefaultRetryWaitSeconds c"
        using R0 by (intro mult_right_mono) simp_all
      with j(1) spent show False
        by simp
    qed
    then show "snd r = 0"
      by (simp add: r_def)
  qed
  from run run' status calls success show ?thesis
    by blast
qed

theorem waitLoop_errors_are_passes_witness:
  "0 < DefaultRetryWaitSeconds exampleCommon
   \<and> DefaultServiceWaitSeconds exampleCommon + DefaultRetryWaitSeconds exampleCommon \<le> 2 ^ 63
   \<and> CatalogCheckServiceInit
        (exampleWorld (\<lambda>n. if n = 1 \<or> n = 3 then Inl ''timeout'' else Inr (n = 5)))
        1 (initReq exampleFlags) = Inl ''timeout''
   \<and> CatalogCheckServiceInit
        (exampleWorld (\<lambda>n. if n = 1 \<or> n = 3 then Inl ''timeout'' else Inr (n = 5)))
        3 (initReq exampleFlags) = Inl ''timeout''
   \<and> CatalogCheckServiceInit
        (exampleWorld (\<lambda>n. if n = 1 \<or> n = 3 then Inl ''timeout'' else Inr (n = 5)))
        5 (initReq exampleFlags) = Inr True
   \<and> int 5 * DefaultRetryWaitSeconds exampleCommon < DefaultServiceWaitSeconds exampleCommon
   \<and> (\<exists>r r'.
        waitLoop exampleCommon
          (exampleWorld (\<lambda>n. if n = 1 \<or> n = 3 then Inl ''timeout'' else Inr (n = 5)))
          (initReq exampleFlags) 0 0 [] = Some r
        \<and> waitLoop exampleCommon
          (withoutCheckInitErrors
            (exampleWorld (\<lambda>n. if n = 1 \<or> n = 3 then Inl ''timeout'' else Inr (n = 5))))
          (initReq exampleFlags) 0 0 [] = Some r'
        \<and> snd r = 0 \<and> snd r' = 0 \<and> checkInitCalls r' = checkInitCalls r)"
proof -
  have R: "0 < DefaultRetryWaitSeconds exampleCommon"
    and B: "DefaultServiceWaitSeconds exampleCommon + DefaultRetryWaitSeconds exampleCommon \<le> 2 ^ 63"
    by (simp_all add: exampleCommon_def)
  have answers:
    "CatalogCheckServiceInit
        (exampleWorld (\<lambda>n. if n = 1 \<or> n = 3 then Inl ''timeout'' else Inr (n = 5)))
        1 (initReq exampleFlags) = Inl ''timeout''"
    "CatalogCheckServiceInit
        (exampleWorld (\<lambda>n. if n = 1 \<or> n = 3 then Inl ''timeout'' else Inr (n = 5)))
        3 (initReq exampleFlags) = Inl ''timeout''"
    "CatalogCheckServiceInit
        (exampleWorld (\<lambda>n. if n = 1 \<or> n = 3 then Inl ''timeout'' else Inr (n = 5)))
        5 (initReq exampleFlags) = Inr True"
    by (simp_all add: exampleWorld_def)
  have within: "int 5 * DefaultRetryWaitSeconds exampleCommon < DefaultServiceWaitSeconds exampleCommon"
    by (simp add: exampleCommon_def)
  from waitLoop_errors_are_passes [OF R B, of
      "exampleWorld (\<lambda>n. if n = 1 \<or> n = 3 then Inl ''timeout'' else Inr (n = 5))"
      "initReq exampleFlags" "[]"]
  obtain r r' where run:
    "waitLoop exampleCommon
       (exampleWorld (\<lambda>n. if n = 1 \<or> n = 3 then Inl ''timeout'' else Inr (n = 5)))
       (initReq exampleFlags) 0 0 [] = Some r"
    "waitLoop exampleCommon
       (withoutCheckInitErrors
         (exampleWorld (\<lambda>n. if n = 1 \<or> n = 3 then Inl ''timeout'' else Inr (n = 5))))
       (initReq exampleFlags) 0 0 [] = Some r'"
    and same: "snd r' = snd r" "checkInitCalls r' = checkInitCalls r"
    and success: "snd r = 0 \<longleftrightarrow>
      (\<exists>j. int j * DefaultRetryWaitSeconds exampleCommon < DefaultServiceWaitSeconds exampleCommon
           \<and> CatalogCheckServiceInit
                (exampleWorld (\<lambda>n. if n = 1 \<or> n = 3 then Inl ''timeout'' else Inr (n = 5)))
                j (initReq exampleFlags) = Inr True)"
    by blast
  from within answers(3) have "\<exists>j. int j * DefaultRetryWaitSeconds exampleCommon
        < DefaultServiceWaitSeconds exampleCommon
      \<and> CatalogCheckServiceInit
           (exampleWorld (\<lambda>n. if n = 1 \<or> n = 3 then Inl ''timeout'' else Inr (n = 5)))
           j (initReq exampleFlags) = Inr True"
    by (intro exI [of _ 5]) simp
  with success have "snd r = 0"
    by simp
  with same have "snd r' = 0"
    by simp
  from run \<open>snd r = 0\<close> \<open>snd r' = 0\<close> same(2)
  have "\<exists>r r'.
        waitLoop exampleCommon
          (exampleWorld (\<lambda>n. if n = 1 \<or> n = 3 then Inl ''timeout'' else Inr (n = 5)))
          (initReq exampleFlags) 0 0 [] = Some r
        \<and> waitLoop exampleCommon
          (withoutCheckInitErrors
            (exampleWorld (\<lambda>n. if n = 1 \<or> n = 3 then Inl ''timeout'' else Inr (n = 5))))
          (initReq exampleFlags) 0 0 [] = Some r'
        \<and> snd r = 0 \<and> snd r' = 0 \<and> checkInitCalls r' = checkInitCalls r"
    by (intro exI conjI)
  with R B answers within show ?thesis
    by (intro conjI)
qed

subsection \<open>The runs of the create handlers\<close>

text \<open>
  Whenever the wait loop ends, its run is the run so far followed by events of the loop,
  none of which is a call that creates a service.
\<close>

lemma waitLoop_extends_run:
  assumes "waitLoop c w rq n sec es = Some r"
  shows "\<exists>es'. fst r = es @ es' \<and> filter isCreateCall es' = []"
proof (rule waitLoop.raw_induct
    [where P = "\<lambda>c w rq n sec es r. \<exists>es'. fst r = es @ es' \<and> filter isCreateCall es' = []",
     OF _ assms], goal_cases)
  case (1 wl c w rq n sec es r)
  show ?case
  proof (cases "sec < DefaultServiceWaitSeconds c")
    case False
    with 1(2) show ?thesis
      by (auto simp: exit_minus_1_def)
  next
    case True
    show ?thesis
    proof (cases "CatalogCheckServiceInit w n rq")
      case (Inl err)
      with True 1(2) have "\<exists>es'. fst r =
          (es @ [Invoke (CallCatalogCheckServiceInit rq), Print (CheckServiceInitError err), Sleep 10])
          @ es' \<and> filter isCreateCall es' = []"
        by (intro 1(1)) simp
      then show ?thesis
        by auto
    next
      case (Inr initialized)
      show ?thesis
      proof (cases initialized)
        case True
        with Inr \<open>sec < DefaultServiceWaitSeconds c\<close> 1(2) show ?thesis
          by (auto simp: returns_def)
      next
        case False
        with Inr \<open>sec < DefaultServiceWaitSeconds c\<close> 1(2) have "\<exists>es'. fst r =
            (es @ [Invoke (CallCatalogCheckServiceInit rq), Sleep 10]) @ es'
            \<and> filter isCreateCall es' = []"
          by (intro 1(1)) simp
        then show ?thesis
          by auto
      qed
    qed
  qed
qed

text \<open>
  C7: with replicas and volume size that pass the check of the handler, the run of
  \<open>createPostgreSQLService\<close> has exactly one call that creates a service: the
  PostgreSQL call, whose request has the admin \<open>postgres\<close>, whatever the admin flag is.
  Every run of \<open>createMongoDBService\<close> that ends has exactly one such call too: the
  MongoDB call, whose request has the admin of the flag. In both requests the service,
  the resources, the replicas, the volume size and the admin password are those of the
  flags, as they stand when the handler runs.
\<close>

theorem create_requests_from_flags:
  assumes "replicas f \<noteq> 0" and "volSizeGB f \<noteq> 0"
  shows "filter isCreateCall (fst (createPostgreSQLService w f)) =
           [Invoke (CallCatalogCreatePostgreSQLService
              \<lparr>CatalogCreatePostgreSQLRequest.Service =
                 \<lparr>ServiceCommonRequest.Region = region f,
                  ServiceCommonRequest.Cluster = cluster f,
                  ServiceName = service f\<rparr>,
               CatalogCreatePostgreSQLRequest.Resource =
                 \<lparr>MaxCPUUnits = cpuUnits f, ReserveCPUUnits = cpuUnits f,
                  MaxMemMB = reserveMemMB f, ReserveMemMB = reserveMemMB f\<rparr>,
               CatalogCreatePostgreSQLRequest.Replicas = replicas f,
               CatalogCreatePostgreSQLRequest.VolumeSizeGB = volSizeGB f,
               CatalogCreatePostgreSQLRequest.Admin = ''postgres'',
               CatalogCreatePostgreSQLRequest.AdminPasswd = adminPasswd f,
               ReplUser = replUser f,
               ReplUserPasswd = replUserPasswd f\<rparr>)]
       \<and> (\<forall>r. createMongoDBService c w f = Some r \<longrightarrow>
            filter isCreateCall (fst r) =
              [Invoke (CallCatalogCreateMongoDBService
                 \<lparr>CatalogCreateMongoDBRequest.Service =
                    \<lparr>ServiceCommonRequest.Region = region f,
                     ServiceCommonRequest.Cluster = cluster f,
                     ServiceName = service f\<rparr>,
                  CatalogCreateMongoDBRequest.Resource =
                    \<lparr>MaxCPUUnits = cpuUnits f, ReserveCPUUnits = cpuUnits f,
                     MaxMemMB = reserveMemMB f, ReserveMemMB = reserveMemMB f\<rparr>,
                  CatalogCreateMongoDBRequest.Replicas = replicas f,
                  CatalogCreateMongoDBRequest.VolumeSizeGB = volSizeGB f,
                  CatalogCreateMongoDBRequest.Admin = admin f,
                  CatalogCreateMongoDBRequest.AdminPasswd = adminPasswd f\<rparr>)])"
proof (intro conjI allI impI)
  show "filter isCreateCall (fst (createPostgreSQLService w f)) =
           [Invoke (CallCatalogCreatePostgreSQLService
              \<lparr>CatalogCreatePostgreSQLRequest.Service =
                 \<lparr>ServiceCommonRequest.Region = region f,
                  ServiceCommonRequest.Cluster = cluster f,
                  ServiceName = service f\<rparr>,
               CatalogCreatePostgreSQLRequest.Resource =
                 \<lparr>MaxCPUUnits = cpuUnits f, ReserveCPUUnits = cpuUnits f,
                  MaxMemMB = reserveMemMB f, ReserveMemMB = reserveMemMB f\<rparr>,
               CatalogCreatePostgreSQLRequest.Replicas = replicas f,
               CatalogCreatePostgreSQLRequest.VolumeSizeGB = volSizeGB f,
               CatalogCreatePostgreSQLRequest.Admin = ''postgres'',
               CatalogCreatePostgreSQLRequest.AdminPasswd = adminPasswd f,
               ReplUser = replUser f,
               ReplUserPasswd = replUserPasswd f\<rparr>)]"
    using assms
    by (simp add: createPostgreSQLService_def postgreSQLRequest_def serviceCommonRequest_def
        resources_def defaultPGAdmin_def returns_def exit_minus_1_def split: option.splits)
next
  fix r
  assume run: "createMongoDBService c w f = Some r"
  show "filter isCreateCall (fst r) =
              [Invoke (CallCatalogCreateMongoDBService
                 \<lparr>CatalogCreateMongoDBRequest.Service =
                    \<lparr>ServiceCommonRequest.Region = region f,
                     ServiceCommonRequest.Cluster = cluster f,
                     ServiceName = service f\<rparr>,
                  CatalogCreateMongoDBRequest.Resource =
                    \<lparr>MaxCPUUnits = cpuUnits f, ReserveCPUUnits = cpuUnits f,
                     MaxMemMB = reserveMemMB f, ReserveMemMB = reserveMemMB f\<rparr>,
                  CatalogCreateMongoDBRequest.Replicas = replicas f,
                  CatalogCreateMongoDBRequest.VolumeSizeGB = volSizeGB f,
                  CatalogCreateMongoDBRequest.Admin = admin f,
                  CatalogCreateMongoDBRequest.AdminPasswd = adminPasswd f\<rparr>)]"
  proof (cases "CatalogCreateMongoDBService w (mongoDBRequest f)")
    case (Some err)
    with run assms show ?thesis
      by (auto simp: createMongoDBService_def mongoDBRequest_def serviceCommonRequest_def
          resources_def exit_minus_1_def)
  next
    case None
    with run assms have "waitLoop c w (initReq f) 0 0
        [Invoke (CallCatalogCreateMongoDBService (mongoDBRequest f)),
         Print CreatedWaitTillInitialized] = Some r"
      by (simp add: createMongoDBService_def)
    from waitLoop_extends_run [OF this] obtain es' where
      "fst r = [Invoke (CallCatalogCreateMongoDBService (mongoDBRequest f)),
                Print CreatedWaitTillInitialized] @ es'"
      and "filter isCreateCall es' = []"
      by blast
    then show ?thesis
      by (simp add: mongoDBRequest_def serviceCommonRequest_def resources_def)
  qed
qed

theorem create_requests_from_flags_witness:
  "replicas exampleFlags \<noteq> 0 \<and> volSizeGB exampleFlags \<noteq> 0
   \<and> admin exampleFlags = ''dbadmin''
   \<and> filter isCreateCall
        (fst (createPostgreSQLService (exampleWorld (\<lambda>n. Inr True)) exampleFlags)) =
       [Invoke (CallCatalogCreatePostgreSQLService
          \<lparr>CatalogCreatePostgreSQLRequest.Service = exampleService,
           CatalogCreatePostgreSQLRequest.Resource =
             \<lparr>MaxCPUUnits = 256, ReserveCPUUnits = 256, MaxMemMB = 256, ReserveMemMB = 256\<rparr>,
           CatalogCreatePostgreSQLRequest.Replicas = 3,
           CatalogCreatePostgreSQLRequest.VolumeSizeGB = 20,
           CatalogCreatePostgreSQLRequest.Admin = ''postgres'',
           CatalogCreatePostgreSQLRequest.AdminPasswd = ''changeme'',
           ReplUser = ''repluser'',
           ReplUserPasswd = ''replpassword''\<rparr>)]
   \<and> createMongoDBService exampleCommon (exampleWorld (\<lambda>n. Inr True)) exampleFlags =
       Some ([Invoke (CallCatalogCreateMongoDBService (mongoDBRequest exampleFlags)),
              Print CreatedWaitTillInitialized,
              Invoke (CallCatalogCheckServiceInit (initReq exampleFlags)),
              Print CatalogServiceInitialized], 0)
   \<and> filter isCreateCall
        [Invoke (CallCatalogCreateMongoDBService (mongoDBRequest exampleFlags)),
         Print CreatedWaitTillInitialized,
         Invoke (CallCatalogCheckServiceInit (initReq exampleFlags)),
         Print CatalogServiceInitialized] =
       [Invoke (CallCatalogCreateMongoDBService
          \<lparr>CatalogCreateMongoDBRequest.Service = exampleService,
           CatalogCreateMongoDBRequest.Resource =
             \<lparr>MaxCPUUnits = 256, ReserveCPUUnits = 256, MaxMemMB = 256, ReserveMemMB = 256\<rparr>,
           CatalogCreateMongoDBRequest.Replicas = 3,
           CatalogCreateMongoDBRequest.VolumeSizeGB = 20,
           CatalogCreateMongoDBRequest.Admin = ''dbadmin'',
           CatalogCreateMongoDBRequest.AdminPasswd = ''changeme''\<rparr>)]"
proof -
  have sizes: "replicas exampleFlags \<noteq> 0" "volSizeGB exampleFlags \<noteq> 0"
    by (simp_all add: exampleFlags_def)
  have run: "createMongoDBService exampleCommon (exampleWorld (\<lambda>n. Inr True)) exampleFlags =
       Some ([Invoke (CallCatalogCreateMongoDBService (mongoDBRequest exampleFlags)),
              Print CreatedWaitTillInitialized,
              Invoke (CallCatalogCheckServiceInit (initReq exampleFlags)),
              Print CatalogServiceInitialized], 0)"
    using sizes
    by (simp add: createMongoDBService_def waitLoop.simps exampleWorld_def exampleCommon_def
        returns_def)
  have flags: "admin exampleFlags = ''dbadmin''"
    "region exampleFlags = ''us-west-1''" "cluster exampleFlags = ''default''"
    "service exampleFlags = ''svcA''" "cpuUnits exampleFlags = 256"
    "reserveMemMB exampleFlags = 256" "replicas exampleFlags = 3" "volSizeGB exampleFlags = 20"
    "adminPasswd exampleFlags = ''changeme''" "replUser exampleFlags = ''repluser''"
    "replUserPasswd exampleFlags = ''replpassword''"
    by (simp_all add: exampleFlags_def)
  from create_requests_from_flags
    [OF sizes, of "exampleWorld (\<lambda>n. Inr True)" exampleCommon]
  show ?thesis
    using sizes run by (simp add: flags exampleService_def)
qed

text \<open>
  C4, as stated, fails for the PostgreSQL service type. The run of
  \<^verbatim>\<open>-op=create-service -service-type=postgresql\<close> against a management service that
  creates the service builds the client, makes the create call, prints that the service
  is created and ends with status 0: \<open>CatalogCheckServiceInit\<close> is not called.
\<close>

theorem createPostgreSQLService_does_not_wait:
  "CatalogCreatePostgreSQLService (exampleWorld (\<lambda>n. Inr False))
     (postgreSQLRequest exampleFlags) = None
   \<and> main exampleCommon (exampleWorld (\<lambda>n. Inr False))
       (exampleFlags\<lparr>serviceType := ''postgresql''\<rparr>) =
     Some ([NewManageClient ''manageserver'' False,
            Invoke (CallCatalogCreatePostgreSQLService (postgreSQLRequest exampleFlags)),
            Print PostgreSQLServiceCreated], 0)"
  by (simp add: main_def dispatch_def createPostgreSQLService_def postgreSQLRequest_def
      serviceCommonRequest_def resources_def exampleWorld_def exampleFlags_def
      opList_def opCreate_def CatalogService_MongoDB_def CatalogService_PostgreSQL_def
      ToLower_def toLowerChar_def isASCII_def after_def returns_def)

text \<open>
  C4, amended: with replicas and volume size that pass the check of the handler, a
  MongoDB create call that succeeds is followed by the wait loop. With a positive retry
  constant the loop calls \<open>CatalogCheckServiceInit\<close> with the request of the created
  service, once in every pass, up to its last pass \<open>m\<close>: the first pass that gets the
  answer "initialized", where the run ends with status 0, or that finds the budget at
  the wait constant, where the run ends with the message of the timeout and status -1.
  A PostgreSQL create call that succeeds ends the run with status 0, with no wait.
\<close>

theorem create_then_wait:
  assumes sizes: "replicas f \<noteq> 0" "volSizeGB f \<noteq> 0"
    and R: "0 < DefaultRetryWaitSeconds c"
    and B: "DefaultServiceWaitSeconds c + DefaultRetryWaitSeconds c \<le> 2 ^ 63"
  shows "(CatalogCreateMongoDBService w (mongoDBRequest f) = None \<longrightarrow>
            (\<exists>m. (\<forall>i<m. int i * DefaultRetryWaitSeconds c < DefaultServiceWaitSeconds c
                       \<and> CatalogCheckServiceInit w i (initReq f) \<noteq> Inr True)
               \<and> (\<not> int m * DefaultRetryWaitSeconds c < DefaultServiceWaitSeconds c
                     \<or> CatalogCheckServiceInit w m (initReq f) = Inr True)
               \<and> createMongoDBService c w f =
                   Some (if int m * DefaultRetryWaitSeconds c < DefaultServiceWaitSeconds c
                         then ([Invoke (CallCatalogCreateMongoDBService (mongoDBRequest f)),
                                Print CreatedWaitTillInitialized]
                               @ passesEvents w (initReq f) m
                               @ [Invoke (CallCatalogCheckServiceInit (initReq f)),
                                  Print CatalogServiceInitialized], 0)
                         else ([Invoke (CallCatalogCreateMongoDBService (mongoDBRequest f)),
                                Print CreatedWaitTillInitialized]
                               @ passesEvents w (initReq f) m
                               @ [Print (NotInitializedAfter (DefaultServiceWaitSeconds c))],
                               - 1))))
       \<and> (CatalogCreatePostgreSQLService w (postgreSQLRequest f) = None \<longrightarrow>
            createPostgreSQLService w f =
              ([Invoke (CallCatalogCreatePostgreSQLService (postgreSQLRequest f)),
                Print PostgreSQLServiceCreated], 0))"
proof (intro conjI impI)
  assume created: "CatalogCreateMongoDBService w (mongoDBRequest f) = None"
  from waitLoop_last_pass [OF R, of w "initReq f"]
  obtain m where
    P: "\<forall>i<m. int i * DefaultRetryWaitSeconds c < DefaultServiceWaitSeconds c
           \<and> CatalogCheckServiceInit w i (initReq f) \<noteq> Inr True"
    and S: "\<not> int m * DefaultRetryWaitSeconds c < DefaultServiceWaitSeconds c
           \<or> CatalogCheckServiceInit w m (initReq f) = Inr True"
    by blast
  have R0: "0 \<le> DefaultRetryWaitSeconds c"
    using R by simp
  from sizes created have "createMongoDBService c w f =
      waitLoop c w (initReq f) 0 0
        [Invoke (CallCatalogCreateMongoDBService (mongoDBRequest f)),
         Print CreatedWaitTillInitialized]"
    by (simp add: createMongoDBService_def)
  also note waitLoop_stops_at [OF R0 B P S]
  finally have "createMongoDBService c w f =
      Some (if int m * DefaultRetryWaitSeconds c < DefaultServiceWaitSeconds c
            then ([Invoke (CallCatalogCreateMongoDBService (mongoDBRequest f)),
                   Print CreatedWaitTillInitialized]
                  @ passesEvents w (initReq f) m
                  @ [Invoke (CallCatalogCheckServiceInit (initReq f)),
                     Print CatalogServiceInitialized], 0)
            else ([Invoke (CallCatalogCreateMongoDBService (mongoDBRequest f)),
                   Print CreatedWaitTillInitialized]
                  @ passesEvents w (initReq f) m
                  @ [Print (NotInitializedAfter (DefaultServiceWaitSeconds c))], - 1))" .
  with P S show "\<exists>m. (\<forall>i<m. int i * DefaultRetryWaitSeconds c < DefaultServiceWaitSeconds c
                       \<and> CatalogCheckServiceInit w i (initReq f) \<noteq> Inr True)
               \<and> (\<not> int m * DefaultRetryWaitSeconds c < DefaultServiceWaitSeconds c
                     \<or> CatalogCheckServiceInit w m (initReq f) = Inr True)
               \<and> createMongoDBService c w f =
                   Some (if int m * DefaultRetryWaitSeconds c < DefaultServiceWaitSeconds c
                         then ([Invoke (CallCatalogCreateMongoDBService (mongoDBRequest f)),
                                Print CreatedWaitTillInitialized]
                               @ passesEvents w (initReq f) m
                               @ [Invoke (CallCatalogCheckServiceInit (initReq f)),
                                  Print CatalogServiceInitialized], 0)
                         else ([Invoke (CallCatalogCreateMongoDBService (mongoDBRequest f)),
                                Print CreatedWaitTillInitialized]
                               @ passesEvents w (initReq f) m
                               @ [Print (NotInitializedAfter (DefaultServiceWaitSeconds c))],
                               - 1))"
    by (intro exI [of _ m] conjI)
next
  assume "CatalogCreatePostgreSQLService w (postgreSQLRequest f) = None"
  with sizes show "createPostgreSQLService w f =
      ([Invoke (CallCatalogCreatePostgreSQLService (postgreSQLRequest f)),
        Print PostgreSQLServiceCreated], 0)"
    by (simp add: createPostgreSQLService_def returns_def)
qed

theorem create_then_wait_witness:
  "replicas exampleFlags \<noteq> 0 \<and> volSizeGB exampleFlags \<noteq> 0
   \<and> 0 < DefaultRetryWaitSeconds exampleCommon
   \<and> DefaultServiceWaitSeconds exampleCommon + DefaultRetryWaitSeconds exampleCommon \<le> 2 ^ 63
   \<and> CatalogCreateMongoDBService (exampleWorld (\<lambda>n. Inr (1 \<le> n)))
        (mongoDBRequest exampleFlags) = None
   \<and> createMongoDBService exampleCommon (exampleWorld (\<lambda>n. Inr (1 \<le> n))) exampleFlags =
       Some ([Invoke (CallCatalogCreateMongoDBService (mongoDBRequest exampleFlags)),
              Print CreatedWaitTillInitialized,
              Invoke (CallCatalogCheckServiceInit (initReq exampleFlags)), Sleep 10,
              Invoke (CallCatalogCheckServiceInit (initReq exampleFlags)),
              Print CatalogServiceInitialized], 0)
   \<and> CatalogCreatePostgreSQLService (exampleWorld (\<lambda>n. Inr (1 \<le> n)))
        (postgreSQLRequest exampleFlags) = None
   \<and> createPostgreSQLService (exampleWorld (\<lambda>n. Inr (1 \<le> n))) exampleFlags =
       ([Invoke (CallCatalogCreatePostgreSQLService (postgreSQLRequest exampleFlags)),
         Print PostgreSQLServiceCreated], 0)"
proof -
  have sizes: "replicas exampleFlags \<noteq> 0" "volSizeGB exampleFlags \<noteq> 0"
    by (simp_all add: exampleFlags_def)
  have R: "0 < DefaultRetryWaitSeconds exampleCommon"
    and B: "DefaultServiceWaitSeconds exampleCommon + DefaultRetryWaitSeconds exampleCommon \<le> 2 ^ 63"
    by (simp_all add: exampleCommon_def)
  have created:
    "CatalogCreateMongoDBService (exampleWorld (\<lambda>n. Inr (1 \<le> n)))
        (mongoDBRequest exampleFlags) = None"
    "CatalogCreatePostgreSQLService (exampleWorld (\<lambda>n. Inr (1 \<le> n)))
        (postgreSQLRequest exampleFlags) = None"
    by (simp_all add: exampleWorld_def)
  have answers:
    "CatalogCheckServiceInit (exampleWorld (\<lambda>n. Inr (1 \<le> n))) i (initReq exampleFlags) =
       Inr (1 \<le> i)" for i
    by (simp add: exampleWorld_def)
  from create_then_wait [OF sizes R B, of "exampleWorld (\<lambda>n. Inr (1 \<le> n))"] created
  obtain m where
    P: "\<forall>i<m. int i * DefaultRetryWaitSeconds exampleCommon
              < DefaultServiceWaitSeconds exampleCommon
           \<and> CatalogCheckServiceInit (exampleWorld (\<lambda>n. Inr (1 \<le> n))) i (initReq exampleFlags)
              \<noteq> Inr True"
    and S: "\<not> int m * DefaultRetryWaitSeconds exampleCommon
              < DefaultServiceWaitSeconds exampleCommon
           \<or> CatalogCheckServiceInit (exampleWorld (\<lambda>n. Inr (1 \<le> n))) m (initReq exampleFlags)
              = Inr True"
    and run: "createMongoDBService exampleCommon (exampleWorld (\<lambda>n. Inr (1 \<le> n))) exampleFlags =
       Some (if int m * DefaultRetryWaitSeconds exampleCommon
                  < DefaultServiceWaitSeconds exampleCommon
             then ([Invoke (CallCatalogCreateMongoDBService (mongoDBRequest exampleFlags)),
                    Print CreatedWaitTillInitialized]
                   @ passesEvents (exampleWorld (\<lambda>n. Inr (1 \<le> n))) (initReq exampleFlags) m
                   @ [Invoke (CallCatalogCheckServiceInit (initReq exampleFlags)),
                      Print CatalogServiceInitialized], 0)
             else ([Invoke (CallCatalogCreateMongoDBService (mongoDBRequest exampleFlags)),
                    Print CreatedWaitTillInitialized]
                   @ passesEvents (exampleWorld (\<lambda>n. Inr (1 \<le> n))) (initReq exampleFlags) m
                   @ [Print (NotInitializedAfter (DefaultServiceWaitSeconds exampleCommon))],
                   - 1))"
    and pg: "createPostgreSQLService (exampleWorld (\<lambda>n. Inr (1 \<le> n))) exampleFlags =
       ([Invoke (CallCatalogCreatePostgreSQLService (postgreSQLRequest exampleFlags)),
         Print PostgreSQLServiceCreated], 0)"
    by blast
  have "m = 1"
  proof -
    from P have "m \<le> 1"
      using answers [of 1] by (metis not_less order_refl)
    moreover have "m \<noteq> 0"
    proof
      assume "m = 0"
      with S answers [of 0] show False
        by (simp add: exampleCommon_def)
    qed
    ultimately show ?thesis
      by simp
  qed
  with run have "createMongoDBService exampleCommon (exampleWorld (\<lambda>n. Inr (1 \<le> n))) exampleFlags =
       Some ([Invoke (CallCatalogCreateMongoDBService (mongoDBRequest exampleFlags)),
              Print CreatedWaitTillInitialized,
              Invoke (CallCatalogCheckServiceInit (initReq exampleFlags)), Sleep 10,
              Invoke (CallCatalogCheckServiceInit (initReq exampleFlags)),
              Print CatalogServiceInitialized], 0)"
    by (simp add: exampleCommon_def passesEvents_def passEvents_def exampleWorld_def)
  with sizes R B created pg show ?thesis
    by (intro conjI)
qed

end
